theory Spec2Isabelle
  imports Main "HOL-Library.Signed_Division" "HOL-Library.Sublist"
begin

section \<open>Go strings\<close>

text \<open>
  A Go string is a sequence of bytes; \<open>len\<close> counts bytes. It is modelled as a
  \<^typ>\<open>string\<close>, one \<^typ>\<open>char\<close> per byte, so \<^const>\<open>length\<close> is Go's \<open>len\<close>.
  The conversion \<open>[]rune(s)\<close> decodes the bytes as UTF-8, one code point per well-formed
  sequence and the replacement character U+FFFD for every byte that starts none.
\<close>

type_synonym rune = nat

definition runeError :: rune where
  "runeError = 0xFFFD"

definition isCont :: "nat \<Rightarrow> bool" where
  "isCont b = (0x80 \<le> b \<and> b \<le> 0xBF)"

text \<open>
  \<open>decoderune\<close> of the Go runtime: the code point at the head of the bytes and the number
  of bytes it takes. Overlong forms, surrogates and values beyond U+10FFFF are rejected.
\<close>

fun decoderune :: "nat list \<Rightarrow> rune \<times> nat" where
  "decoderune [] = (runeError, 1)"
| "decoderune (b0 # bs) =
     (if b0 < 0x80 then (b0, 1)
      else if 0xC0 \<le> b0 \<and> b0 < 0xE0 then
        (case bs of
           b1 # _ \<Rightarrow>
             (let r = (b0 mod 0x20) * 0x40 + (b1 mod 0x40)
              in if isCont b1 \<and> 0x7F < r then (r, 2) else (runeError, 1))
         | _ \<Rightarrow> (runeError, 1))
      else if 0xE0 \<le> b0 \<and> b0 < 0xF0 then
        (case bs of
           b1 # b2 # _ \<Rightarrow>
             (let r = (b0 mod 0x10) * 0x1000 + (b1 mod 0x40) * 0x40 + (b2 mod 0x40)
              in if isCont b1 \<and> isCont b2 \<and> 0x7FF < r \<and> \<not> (0xD800 \<le> r \<and> r \<le> 0xDFFF)
                 then (r, 3) else (runeError, 1))
         | _ \<Rightarrow> (runeError, 1))
      else if 0xF0 \<le> b0 \<and> b0 < 0xF8 then
        (case bs of
           b1 # b2 # b3 # _ \<Rightarrow>
             (let r = (b0 mod 0x08) * 0x40000 + (b1 mod 0x40) * 0x1000
                        + (b2 mod 0x40) * 0x40 + (b3 mod 0x40)
              in if isCont b1 \<and> isCont b2 \<and> isCont b3 \<and> 0xFFFF < r \<and> r \<le> 0x10FFFF
                 then (r, 4) else (runeError, 1))
         | _ \<Rightarrow> (runeError, 1))
      else (runeError, 1))"

function decodeRunes :: "nat list \<Rightarrow> rune list" where
  "decodeRunes [] = []"
| "decodeRunes (b # bs) =
     fst (decoderune (b # bs)) # decodeRunes (drop (snd (decoderune (b # bs))) (b # bs))"
  by pat_completeness auto
termination
proof (relation "measure length")
  show "wf (measure length)" by simp
next
  fix b :: nat and bs :: "nat list"
  have "1 \<le> snd (decoderune (b # bs))"
    by (auto simp: Let_def split: list.splits)
  then show "(drop (snd (decoderune (b # bs))) (b # bs), b # bs) \<in> measure length"
    by simp
qed

definition runes :: "string \<Rightarrow> rune list" where
  "runes s = decodeRunes (map of_char s)"

section \<open>Edit distance\<close>

text \<open>
  The options of \<open>levenshtein.DistanceForStrings\<close>: the cost of each edit operation.
  Two runes match when they are equal.
\<close>

record Options =
  InsCost :: int
  DelCost :: int
  SubCost :: int

text \<open>
  Modelled from the spec: the package \<open>levenshtein\<close> is a dependency whose source is not
  part of the repository. The spec gives the distance as the edit distance with
  insertions, deletions and substitutions of unit cost each, so \<open>DefaultOptions\<close> carries
  cost 1 for the three operations.
\<close>

definition DefaultOptions :: Options where
  "DefaultOptions = \<lparr>InsCost = 1, DelCost = 1, SubCost = 1\<rparr>"

text \<open>
  Modelled from the spec: the least total cost of a sequence of insertions, deletions and
  substitutions that turns \<open>source\<close> into \<open>target\<close>.
\<close>

fun DistanceForStrings :: "rune list \<Rightarrow> rune list \<Rightarrow> Options \<Rightarrow> int" where
  "DistanceForStrings [] target op = int (length target) * InsCost op"
| "DistanceForStrings (x # xs) [] op = int (length (x # xs)) * DelCost op"
| "DistanceForStrings (x # xs) (y # ys) op =
     min (DistanceForStrings xs (y # ys) op + DelCost op)
         (min (DistanceForStrings xs ys op + (if x = y then 0 else SubCost op))
              (DistanceForStrings (x # xs) ys op + InsCost op))"

section \<open>Similarity score\<close>

definition FuzzyRatio :: int where
  "FuzzyRatio = 80"

definition NormalizeRatio :: "int \<Rightarrow> int" where
  "NormalizeRatio ratio = (if ratio < 0 then 0 else if ratio > 100 then 100 else ratio)"

text \<open>
  Go's \<open>/\<close> on integers truncates towards zero: \<^term>\<open>(sdiv)\<close>. \<open>maxLen\<close> is taken
  from \<open>len\<close> of the strings, that is from their bytes.
\<close>

definition FuzzyMatchRatio :: "string \<Rightarrow> string \<Rightarrow> int" where
  "FuzzyMatchRatio str1 str2 =
     (let distance = DistanceForStrings (runes str1) (runes str2) DefaultOptions;
          maxLen = int (length str1);
          maxLen = (if int (length str2) > maxLen then int (length str2) else maxLen)
      in if maxLen = 0 then 100
         else ((maxLen - distance) * 100) sdiv maxLen)"

text \<open>
  The score as the specification words it: both the distance and \<open>maxLen\<close> are measured
  in code points, and the quotient is clamped into the range from 0 to 100.
\<close>

definition spec_score :: "string \<Rightarrow> string \<Rightarrow> int" where
  "spec_score a b =
     (let distance = DistanceForStrings (runes a) (runes b) DefaultOptions;
          maxLen = max (int (length (runes a))) (int (length (runes b)))
      in if maxLen = 0 then 100
         else max 0 (min 100 (((maxLen - distance) * 100) div maxLen)))"

text \<open>
  \<open>strings.Contains\<close>: \<open>substr\<close> occurs in \<open>s\<close> as a run of consecutive bytes. The
  empty string occurs in every string.
\<close>

fun Contains :: "string \<Rightarrow> string \<Rightarrow> bool" where
  "Contains [] substr = (substr = [])"
| "Contains (c # s) substr = (prefix substr (c # s) \<or> Contains s substr)"

text \<open>
  \<open>strings.ToLower\<close> on a string of ASCII bytes; on other strings Go maps every code
  point through the Unicode tables of its library, which is why the search functions
  below take the lower-casing function as a parameter.
\<close>

definition asciiToLower :: "string \<Rightarrow> string" where
  "asciiToLower s =
     map (\<lambda>c. if 65 \<le> (of_char c :: nat) \<and> (of_char c :: nat) \<le> 90
               then char_of ((of_char c :: nat) + 32) else c) s"

section \<open>Numbers as text\<close>

text \<open>\<open>fmt.Sprintf("%d", n)\<close>: the decimal digits of \<open>n\<close>, after a minus sign when negative.\<close>

fun digitsOf :: "nat \<Rightarrow> string" where
  "digitsOf n =
     (if n < 10 then [char_of (48 + n)]
      else digitsOf (n div 10) @ [char_of (48 + n mod 10)])"

definition Sprintf_d :: "int \<Rightarrow> string" where
  "Sprintf_d n = (if n < 0 then CHR ''-'' # digitsOf (nat (- n)) else digitsOf (nat n))"

definition isDigit :: "char \<Rightarrow> bool" where
  "isDigit c = (48 \<le> (of_char c :: nat) \<and> (of_char c :: nat) \<le> 57)"

fun digitsValue :: "string \<Rightarrow> nat \<Rightarrow> nat" where
  "digitsValue [] acc = acc"
| "digitsValue (c # cs) acc = digitsValue cs (acc * 10 + ((of_char c :: nat) - 48))"

text \<open>
  \<open>strconv.ParseInt(s, 10, 64)\<close>: an optional sign and at least one decimal digit. A
  text that is no number gives 0 and an error; a number outside the 64-bit range gives
  the nearest bound and an error.
\<close>

definition ParseInt :: "string \<Rightarrow> int \<times> string option" where
  "ParseInt s =
     (case s of
        [] \<Rightarrow> (0, Some ''invalid syntax'')
      | c # cs \<Rightarrow>
          (let neg = (c = CHR ''-'');
               ds = (if c = CHR ''+'' \<or> c = CHR ''-'' then cs else s)
           in if ds = [] \<or> \<not> list_all isDigit ds then (0, Some ''invalid syntax'')
              else (let un = int (digitsValue ds 0)
                    in if \<not> neg \<and> un \<ge> 2 ^ 63 then (2 ^ 63 - 1, Some ''value out of range'')
                       else if neg \<and> un > 2 ^ 63 then (- (2 ^ 63), Some ''value out of range'')
                       else (if neg then - un else un, None))))"

section \<open>The table service and the log\<close>

text \<open>
  An error of the service is its message. The answers of the service are the structs of
  the SDK with the fields the program reads: the ARN of a table, the billing mode of its
  summary (absent when the table has no summary) and the two capacity units (read
  through \<open>aws.ToInt64\<close>, which gives 0 for an absent one).
\<close>

type_synonym error = string

record Tag =
  Key :: string
  Value :: string

record TableDescription =
  TableArn :: string
  BillingModeSummary :: "string option"
  ReadCapacityUnits :: "int option"
  WriteCapacityUnits :: "int option"

record UpdateTableInput =
  TableName :: string
  BillingMode :: string
  ProvisionedThroughput :: "(int \<times> int) option"

text \<open>
  The manager holds the client of the service. The service is given by what it answers:
  the pages of the table listing in the order the paginator yields them, each a failure
  or a list of names, and the answer to each describe, tag and update request.
\<close>

record DynamoDBManager =
  ListTablesPages :: "(error + string list) list"
  DescribeTable :: "string \<Rightarrow> error + TableDescription"
  ListTagsOfResource :: "string \<Rightarrow> error + Tag list"
  UpdateTable :: "UpdateTableInput \<Rightarrow> error option"

text \<open>
  What a run does besides returning: the records it hands to the logger (level and
  format; the logger strips line breaks from the format) and the requests it sends to the
  service, in order.
\<close>

datatype level = Debug | Info | Warn | Error

datatype event =
    Log level string
  | ListTablesCall
  | DescribeTableCall string
  | ListTagsOfResourceCall string
  | UpdateTableCall UpdateTableInput

type_synonym 'a io = "'a \<times> event list"

definition after :: "event list \<Rightarrow> 'a io \<Rightarrow> 'a io" where
  "after tr m = (fst m, tr @ snd m)"

fun isUpdate :: "event \<Rightarrow> bool" where
  "isUpdate (UpdateTableCall i) = True"
| "isUpdate e = False"

fun isRequest :: "event \<Rightarrow> bool" where
  "isRequest (Log l msg) = False"
| "isRequest e = True"

text \<open>
  A Go slice is \<open>nil\<close> or holds elements: \<open>None\<close> is the nil slice. \<open>append\<close> to a nil
  slice gives a slice that is not nil; \<open>range\<close> over a nil slice runs no iteration.
\<close>

definition appendSlice :: "'a list option \<Rightarrow> 'a \<Rightarrow> 'a list option" where
  "appendSlice s x = (case s of None \<Rightarrow> Some [x] | Some xs \<Rightarrow> Some (xs @ [x]))"

definition elements :: "'a list option \<Rightarrow> 'a list" where
  "elements s = (case s of None \<Rightarrow> [] | Some xs \<Rightarrow> xs)"

section \<open>Package client\<close>

definition DefaultRcu :: int where
  "DefaultRcu = 5"

definition DefaultWcu :: int where
  "DefaultWcu = 5"

text \<open>
  \<open>GetTableList\<close>: the loop over the pages. A failing page ends the loop; the names
  gathered before it are returned with the failure.
\<close>

fun GetTableList_loop :: "(error + string list) list \<Rightarrow> string list \<Rightarrow> (string list \<times> error option) io" where
  "GetTableList_loop [] tableNames = ((tableNames, None), [])"
| "GetTableList_loop (Inl err # pages) tableNames =
     ((tableNames, Some err), [ListTablesCall, Log Error ''Couldn't list tables. Here's why: %v''])"
| "GetTableList_loop (Inr output # pages) tableNames =
     after [ListTablesCall] (GetTableList_loop pages (tableNames @ output))"

definition GetTableList :: "DynamoDBManager \<Rightarrow> (string list \<times> error option) io" where
  "GetTableList dbmgr = GetTableList_loop (ListTablesPages dbmgr) []"

definition GetTableArn :: "DynamoDBManager \<Rightarrow> string \<Rightarrow> (error + string) io" where
  "GetTableArn dbmgr tableName =
     (case DescribeTable dbmgr tableName of
        Inl err \<Rightarrow>
          (Inl err, [DescribeTableCall tableName, Log Error ''Failed to get Table Arn, Here's why: %v''])
      | Inr output \<Rightarrow> (Inr (TableArn output), [DescribeTableCall tableName]))"

definition GetTableTags :: "DynamoDBManager \<Rightarrow> string \<Rightarrow> (error + Tag list) io" where
  "GetTableTags dbmgr tableArn =
     (case ListTagsOfResource dbmgr tableArn of
        Inl err \<Rightarrow>
          (Inl err, [ListTagsOfResourceCall tableArn, Log Error ''Error calling ListTagsOfResource:%v''])
      | Inr tags \<Rightarrow> (Inr tags, [ListTagsOfResourceCall tableArn]))"

definition ToInt64 :: "int option \<Rightarrow> int" where
  "ToInt64 p = (case p of None \<Rightarrow> 0 | Some v \<Rightarrow> v)"

definition GetCurrentBillingMode :: "DynamoDBManager \<Rightarrow> string \<Rightarrow> (error + string \<times> string \<times> string) io" where
  "GetCurrentBillingMode dbmgr tableName =
     (case DescribeTable dbmgr tableName of
        Inl err \<Rightarrow> (Inl err, [DescribeTableCall tableName])
      | Inr output \<Rightarrow>
          (let billingMode = (case BillingModeSummary output of None \<Rightarrow> [] | Some mode \<Rightarrow> mode);
               rcu = (if billingMode = ''PROVISIONED''
                      then Sprintf_d (ToInt64 (ReadCapacityUnits output)) else []);
               wcu = (if billingMode = ''PROVISIONED''
                      then Sprintf_d (ToInt64 (WriteCapacityUnits output)) else [])
           in (Inr (billingMode, rcu, wcu), [DescribeTableCall tableName])))"

definition UpdateProvisionedCapacity :: "DynamoDBManager \<Rightarrow> bool \<Rightarrow> string \<Rightarrow> string \<Rightarrow> string \<Rightarrow> error option io" where
  "UpdateProvisionedCapacity dbmgr switchToProvisioned tableName rcuStr wcuStr =
     (let rcuVal = (if rcuStr \<noteq> [] then fst (ParseInt rcuStr) else 0);
          wcuVal = (if wcuStr \<noteq> [] then fst (ParseInt wcuStr) else 0);
          rcuVal = (if switchToProvisioned \<and> rcuStr = [] then DefaultRcu else rcuVal);
          wcuVal = (if switchToProvisioned \<and> wcuStr = [] then DefaultWcu else wcuVal);
          input = \<lparr>TableName = tableName,
                   BillingMode = (if switchToProvisioned then ''PROVISIONED'' else []),
                   ProvisionedThroughput = Some (rcuVal, wcuVal)\<rparr>
      in (case UpdateTable dbmgr input of
            Some err \<Rightarrow>
              (Some err, [UpdateTableCall input, Log Error ''Error updating provisioned capacity: %v''])
          | None \<Rightarrow>
              (None, [UpdateTableCall input,
                      Log Info ''Provisioned capacity updated for table:%s - RCU: %d, WCU: %d''])))"

definition SwitchToOnDemandCapacity :: "DynamoDBManager \<Rightarrow> string \<Rightarrow> error option io" where
  "SwitchToOnDemandCapacity dbmgr tableName =
     (let input = \<lparr>TableName = tableName, BillingMode = ''PAY_PER_REQUEST'',
                   ProvisionedThroughput = None\<rparr>
      in (case UpdateTable dbmgr input of
            Some err \<Rightarrow>
              (Some err, [UpdateTableCall input, Log Error ''error switching to on-demand capacity: %v''])
          | None \<Rightarrow>
              (None, [UpdateTableCall input, Log Info ''Switched to on-demand capacity for table: %s''])))"

section \<open>Package search\<close>

text \<open>A found table: the Go map with the keys \<open>Name\<close> and \<open>ARN\<close>.\<close>

type_synonym entry = "string \<rightharpoonup> string"

definition mkEntry :: "string \<Rightarrow> string \<Rightarrow> entry" where
  "mkEntry tableName tableArn = [''Name'' \<mapsto> tableName, ''ARN'' \<mapsto> tableArn]"

text \<open>
  The head of the loop body of \<open>searchTablesByFuzzyName\<close>: whether the loop goes on to
  the next table without resolving this one (\<open>continue\<close>), and what it logged. The
  score is computed only for a name that does not contain the pattern.
\<close>

definition nameCheck :: "(string \<Rightarrow> string) \<Rightarrow> string \<Rightarrow> string \<Rightarrow> bool io" where
  "nameCheck ToLower fuzzyName tableName =
     (if \<not> Contains tableName fuzzyName then
        (let fuzzyRatio = FuzzyMatchRatio (ToLower fuzzyName) (ToLower tableName);
             similarityScore = NormalizeRatio fuzzyRatio
         in (similarityScore < FuzzyRatio,
             [Log Debug ''Calculating: fuzzyname:%s - tablename:%s - similarityScore: %d'']))
      else (False, []))"

fun searchTablesByFuzzyName_loop ::
  "(string \<Rightarrow> string) \<Rightarrow> DynamoDBManager \<Rightarrow> string \<Rightarrow> string list \<Rightarrow> entry list \<Rightarrow> entry list io" where
  "searchTablesByFuzzyName_loop ToLower dbmgr fuzzyName [] matchingTables = (matchingTables, [])"
| "searchTablesByFuzzyName_loop ToLower dbmgr fuzzyName (tableName # tableList) matchingTables =
     (if fst (nameCheck ToLower fuzzyName tableName) then
        after (snd (nameCheck ToLower fuzzyName tableName))
          (searchTablesByFuzzyName_loop ToLower dbmgr fuzzyName tableList matchingTables)
      else
        (case fst (GetTableArn dbmgr tableName) of
           Inl err \<Rightarrow>
             after (snd (nameCheck ToLower fuzzyName tableName) @ snd (GetTableArn dbmgr tableName)
                    @ [Log Warn ''Error getting table ARN: %v''])
               (searchTablesByFuzzyName_loop ToLower dbmgr fuzzyName tableList matchingTables)
         | Inr tableArn \<Rightarrow>
             after (snd (nameCheck ToLower fuzzyName tableName) @ snd (GetTableArn dbmgr tableName)
                    @ [Log Info ''searchTablesByFuzzyName: fuzzyname:%s - tablename:%s - tableArn: %s''])
               (searchTablesByFuzzyName_loop ToLower dbmgr fuzzyName tableList
                  (matchingTables @ [mkEntry tableName tableArn]))))"

definition searchTablesByFuzzyName ::
  "(string \<Rightarrow> string) \<Rightarrow> DynamoDBManager \<Rightarrow> string \<Rightarrow> entry list option io" where
  "searchTablesByFuzzyName ToLower dbmgr fuzzyName =
     (case GetTableList dbmgr of
        ((tableList, Some err), tr) \<Rightarrow>
          (None, tr @ [Log Error ''Error finding DynamoDB tables: %v''])
      | ((tableList, None), tr) \<Rightarrow>
          after (tr @ [Log Info ''searchTablesByFuzzyName before''])
            (let r = searchTablesByFuzzyName_loop ToLower dbmgr fuzzyName tableList []
             in (Some (fst r), snd r)))"

text \<open>
  The loop over the tags of one table: whether a tag has the value, and the debug record
  of every tag looked at. The key of a tag is not compared.
\<close>

fun tagValue_loop :: "string \<Rightarrow> Tag list \<Rightarrow> bool io" where
  "tagValue_loop tagValue [] = (False, [])"
| "tagValue_loop tagValue (tag # tags) =
     (if Value tag = tagValue
      then (True, [Log Debug ''table_name: %s - tableArn: %s, Key: %s, Value: %s''])
      else after [Log Debug ''table_name: %s - tableArn: %s, Key: %s, Value: %s'']
             (tagValue_loop tagValue tags))"

fun searchTablesByTagValue_loop ::
  "DynamoDBManager \<Rightarrow> string \<Rightarrow> string list \<Rightarrow> entry list option \<Rightarrow> entry list option io" where
  "searchTablesByTagValue_loop dbmgr tagValue [] matchingTables = (matchingTables, [])"
| "searchTablesByTagValue_loop dbmgr tagValue (tableName # tableListTag) matchingTables =
     (case fst (GetTableArn dbmgr tableName) of
        Inl err \<Rightarrow>
          after ([Log Info ''Check the tags of table name: %s''] @ snd (GetTableArn dbmgr tableName)
                 @ [Log Warn ''Error getting table ARN: %v''])
            (searchTablesByTagValue_loop dbmgr tagValue tableListTag matchingTables)
      | Inr tableArn \<Rightarrow>
          (case fst (GetTableTags dbmgr tableArn) of
             Inl errTag \<Rightarrow>
               after ([Log Info ''Check the tags of table name: %s''] @ snd (GetTableArn dbmgr tableName)
                      @ snd (GetTableTags dbmgr tableArn)
                      @ [Log Warn ''Get tags for arn:%s, failed due to:%v''])
                 (searchTablesByTagValue_loop dbmgr tagValue tableListTag matchingTables)
           | Inr tags \<Rightarrow>
               after ([Log Info ''Check the tags of table name: %s''] @ snd (GetTableArn dbmgr tableName)
                      @ snd (GetTableTags dbmgr tableArn) @ snd (tagValue_loop tagValue tags))
                 (searchTablesByTagValue_loop dbmgr tagValue tableListTag
                    (if fst (tagValue_loop tagValue tags)
                     then appendSlice matchingTables (mkEntry tableName tableArn)
                     else matchingTables))))"

text \<open>
  \<open>tableList\<close> is a slice: \<open>nil\<close> makes the function list every table of the service,
  any other slice is searched as it is.
\<close>

definition searchTablesByTagValue ::
  "DynamoDBManager \<Rightarrow> string \<Rightarrow> string list option \<Rightarrow> entry list option io" where
  "searchTablesByTagValue dbmgr tagValue tableList =
     (case tableList of
        Some names \<Rightarrow> searchTablesByTagValue_loop dbmgr tagValue names None
      | None \<Rightarrow>
          (case GetTableList dbmgr of
             ((tableListTag, Some errGetTable), tr) \<Rightarrow>
               (None, tr @ [Log Error ''Error finding DynamoDB tables: %v''])
           | ((tableListTag, None), tr) \<Rightarrow>
               after tr (searchTablesByTagValue_loop dbmgr tagValue tableListTag None)))"

text \<open>The names of the entries, appended one by one to a slice that starts as \<open>nil\<close>.\<close>

fun collectNames :: "entry list \<Rightarrow> string list option \<Rightarrow> string list option" where
  "collectNames [] tableList = tableList"
| "collectNames (entry # entries) tableList =
     (case entry ''Name'' of
        Some name \<Rightarrow> collectNames entries (appendSlice tableList name)
      | None \<Rightarrow> collectNames entries tableList)"

text \<open>The end of \<open>ExecuteSearch\<close>: a warning for an empty result, then one record per table.\<close>

definition reportResults :: "entry list option \<Rightarrow> event list" where
  "reportResults matchingTables =
     (if matchingTables = None \<or> length (elements matchingTables) = 0
      then [Log Warn ''Empty search results - please check the search conditions, tableFuzzyName:%s - tagValue:%s'']
      else [])
     @ [Log Info ''Search results:'']
     @ map (\<lambda>table. Log Info ''Table Name: %s, ARN: %s'') (elements matchingTables)"

definition ExecuteSearch ::
  "(string \<Rightarrow> string) \<Rightarrow> DynamoDBManager \<Rightarrow> string \<Rightarrow> string \<Rightarrow> entry list option io" where
  "ExecuteSearch ToLower dbmgr tableFuzzyName tagValue =
     (if tableFuzzyName \<noteq> [] \<and> tagValue \<noteq> [] then
        (let fuzzy = searchTablesByFuzzyName ToLower dbmgr tableFuzzyName;
             tableList = collectNames (elements (fst fuzzy)) None;
             tagged = searchTablesByTagValue dbmgr tagValue tableList
         in (fst tagged,
             [Log Info ''Begin to search the matched tables via fuzzy name:%s, tag:%s, ...'']
             @ snd fuzzy @ snd tagged @ reportResults (fst tagged)))
      else if tableFuzzyName \<noteq> [] then
        (let fuzzy = searchTablesByFuzzyName ToLower dbmgr tableFuzzyName
         in (fst fuzzy,
             [Log Info ''Begin to search the matched tables via fuzzy name:%s, ...'']
             @ snd fuzzy @ reportResults (fst fuzzy)))
      else if tagValue \<noteq> [] then
        (let tagged = searchTablesByTagValue dbmgr tagValue None
         in (fst tagged,
             [Log Info ''Begin to search the matched tables via tag:%s, ...'']
             @ snd tagged @ reportResults (fst tagged)))
      else
        (None, [Log Error ''Invalid search conditions: search table name or tag value should not be empty!'']))"

section \<open>Package update\<close>

definition ExecuteUpdate ::
  "DynamoDBManager \<Rightarrow> string \<Rightarrow> string \<Rightarrow> string \<Rightarrow> bool \<Rightarrow> bool \<Rightarrow> error option io" where
  "ExecuteUpdate dbmgr tableName paramRcu paramWcu switchToOnDemand switchToProvisioned =
     (case fst (GetCurrentBillingMode dbmgr tableName) of
        Inl err \<Rightarrow>
          (Some ''Failed to update the table!'',
           snd (GetCurrentBillingMode dbmgr tableName)
           @ [Log Error ''Failed to get the billing mode info of table:%s : as current billing mode due to error:%v''])
      | Inr (billingMode, rcu, wcu) \<Rightarrow>
          (if switchToOnDemand then
             (if billingMode \<noteq> ''PAY_PER_REQUEST''
              then after (snd (GetCurrentBillingMode dbmgr tableName))
                     (SwitchToOnDemandCapacity dbmgr tableName)
              else (None, snd (GetCurrentBillingMode dbmgr tableName)
                          @ [Log Warn ''No need to switch, as it already is on demand mode!'']))
           else if billingMode \<noteq> ''PROVISIONED'' \<and> \<not> switchToProvisioned then
             (Some ''Failed to update the table!'',
              snd (GetCurrentBillingMode dbmgr tableName)
              @ [Log Error ''Failed to update table:%s : as current billing mode:%s - does not support modification of rcu or wcu''])
           else if paramRcu = [] \<and> paramWcu = [] then
             after (snd (GetCurrentBillingMode dbmgr tableName))
               (UpdateProvisionedCapacity dbmgr switchToProvisioned tableName [] [])
           else
             (let paramRcu = (if paramRcu = [] then Sprintf_d DefaultRcu else paramRcu);
                  paramWcu = (if paramWcu = [] then Sprintf_d DefaultWcu else paramWcu)
              in if paramRcu \<noteq> rcu \<or> paramWcu \<noteq> wcu
                 then after (snd (GetCurrentBillingMode dbmgr tableName))
                        (UpdateProvisionedCapacity dbmgr switchToProvisioned tableName paramRcu paramWcu)
                 else (None, snd (GetCurrentBillingMode dbmgr tableName)
                             @ [Log Warn ''No need to update, as it already is provisioned mode or remain the same rcu and wcu!'']))))"

text \<open>The requests that concern one table: to describe it or to list its tags.\<close>

fun isTableRequest :: "event \<Rightarrow> bool" where
  "isTableRequest (DescribeTableCall tableName) = True"
| "isTableRequest (ListTagsOfResourceCall tableArn) = True"
| "isTableRequest e = False"

text \<open>The tables a run asked the service to describe, in the order of the requests.\<close>

fun describedTables :: "event list \<Rightarrow> string list" where
  "describedTables [] = []"
| "describedTables (DescribeTableCall tableName # es) = tableName # describedTables es"
| "describedTables (e # es) = describedTables es"

section \<open>Example service\<close>

text \<open>
  A service with the single table \<open>orders\<close>, given by its description, its tags and the
  pages of its listing. Every update request succeeds.
\<close>

definition exampleTable :: "string \<Rightarrow> int \<Rightarrow> int \<Rightarrow> TableDescription" where
  "exampleTable mode r w =
     \<lparr>TableArn = ''arn:orders'', BillingModeSummary = Some mode,
      ReadCapacityUnits = Some r, WriteCapacityUnits = Some w\<rparr>"

definition exampleManager ::
  "(error + string list) list \<Rightarrow> TableDescription \<Rightarrow> Tag list \<Rightarrow> DynamoDBManager" where
  "exampleManager pages d tags =
     \<lparr>ListTablesPages = pages,
      DescribeTable = (\<lambda>n. if n = ''orders'' then Inr d else Inl ''ResourceNotFoundException''),
      ListTagsOfResource = (\<lambda>a. if a = ''arn:orders'' then Inr tags else Inl ''AccessDeniedException''),
      UpdateTable = (\<lambda>i. None)\<rparr>"

section \<open>Facts about the helpers\<close>

text \<open>\<open>Contains\<close> is the contiguous-sublist relation of the library.\<close>

lemma Contains_sublist: "Contains s substr \<longleftrightarrow> sublist substr s"
  by (induction s) (simp_all add: sublist_Cons_right)

declare digitsOf.simps [simp del]

lemma digitsOf_nonempty: "digitsOf n \<noteq> []"
  by (subst digitsOf.simps) simp

lemma Sprintf_d_nonempty: "Sprintf_d n \<noteq> []"
  by (simp add: Sprintf_d_def digitsOf_nonempty)

lemma Sprintf_d_DefaultRcu: "Sprintf_d DefaultRcu = ''5''"
  by code_simp

lemma Sprintf_d_DefaultWcu: "Sprintf_d DefaultWcu = ''5''"
  by code_simp

lemma ParseInt_5: "ParseInt ''5'' = (5, None)"
  by code_simp

lemma ParseInt_10: "ParseInt ''10'' = (10, None)"
  by code_simp

lemma Sprintf_d_5: "Sprintf_d 5 = ''5''"
  by code_simp

lemma UpdateProvisionedCapacity_units:
  assumes "rcuStr \<noteq> []" and "wcuStr \<noteq> []"
  shows "filter isUpdate (snd (UpdateProvisionedCapacity dbmgr sw tableName rcuStr wcuStr))
           = [UpdateTableCall \<lparr>TableName = tableName,
                 BillingMode = (if sw then ''PROVISIONED'' else []),
                 ProvisionedThroughput = Some (fst (ParseInt rcuStr), fst (ParseInt wcuStr))\<rparr>]
         \<and> fst (UpdateProvisionedCapacity dbmgr sw tableName rcuStr wcuStr)
           = UpdateTable dbmgr \<lparr>TableName = tableName,
                 BillingMode = (if sw then ''PROVISIONED'' else []),
                 ProvisionedThroughput = Some (fst (ParseInt rcuStr), fst (ParseInt wcuStr))\<rparr>"
  using assms
  by (simp add: UpdateProvisionedCapacity_def Let_def split: option.splits)

lemma GetCurrentBillingMode_ok:
  assumes "DescribeTable dbmgr tableName = Inr output"
  shows "GetCurrentBillingMode dbmgr tableName
         = (Inr (case BillingModeSummary output of None \<Rightarrow> [] | Some mode \<Rightarrow> mode,
                 if BillingModeSummary output = Some ''PROVISIONED''
                 then Sprintf_d (ToInt64 (ReadCapacityUnits output)) else [],
                 if BillingModeSummary output = Some ''PROVISIONED''
                 then Sprintf_d (ToInt64 (WriteCapacityUnits output)) else []),
            [DescribeTableCall tableName])"
  using assms by (simp add: GetCurrentBillingMode_def Let_def split: option.splits)

text \<open>
  The branch of \<open>ExecuteUpdate\<close> for explicit units, in terms of the table description:
  \<open>r\<close> and \<open>w\<close> are the texts of the units after the blank one got its default.
\<close>

lemma ExecuteUpdate_units:
  assumes d: "DescribeTable dbmgr tableName = Inr output"
    and r: "r \<noteq> []" and w: "w \<noteq> []"
    and pr: "r = (if paramRcu = [] then Sprintf_d DefaultRcu else paramRcu)"
    and pw: "w = (if paramWcu = [] then Sprintf_d DefaultWcu else paramWcu)"
    and units: "paramRcu \<noteq> [] \<or> paramWcu \<noteq> []"
    and req: "switchToProvisioned \<or> BillingModeSummary output = Some ''PROVISIONED''"
  shows "ExecuteUpdate dbmgr tableName paramRcu paramWcu False switchToProvisioned
         = (if BillingModeSummary output = Some ''PROVISIONED''
                \<and> r = Sprintf_d (ToInt64 (ReadCapacityUnits output))
                \<and> w = Sprintf_d (ToInt64 (WriteCapacityUnits output))
            then (None, [DescribeTableCall tableName,
                         Log Warn ''No need to update, as it already is provisioned mode or remain the same rcu and wcu!''])
            else after [DescribeTableCall tableName]
                   (UpdateProvisionedCapacity dbmgr switchToProvisioned tableName r w))"
proof (cases "BillingModeSummary output = Some ''PROVISIONED''")
  case True
  show ?thesis
    unfolding ExecuteUpdate_def GetCurrentBillingMode_ok [OF d]
    using True units r w pr pw
    by (cases "paramRcu = []"; cases "paramWcu = []"; simp add: Let_def)
next
  case False
  with req have sw: switchToProvisioned by simp
  show ?thesis
    unfolding ExecuteUpdate_def GetCurrentBillingMode_ok [OF d]
    using False sw units r w pr pw
    by (cases "paramRcu = []"; cases "paramWcu = []"; simp add: Let_def)
qed

lemma fst_after [simp]: "fst (after tr m) = fst m"
  by (simp add: after_def)

lemma snd_after [simp]: "snd (after tr m) = tr @ snd m"
  by (simp add: after_def)

lemma describedTables_append [simp]:
  "describedTables (xs @ ys) = describedTables xs @ describedTables ys"
  by (induction xs rule: describedTables.induct) simp_all

lemma nameCheck_continue:
  "fst (nameCheck ToLower fuzzyName tableName)
   = (\<not> (Contains tableName fuzzyName
          \<or> 80 \<le> NormalizeRatio (FuzzyMatchRatio (ToLower fuzzyName) (ToLower tableName))))"
  by (auto simp: nameCheck_def Let_def FuzzyRatio_def)

lemma nameCheck_described [simp]:
  "describedTables (snd (nameCheck ToLower fuzzyName tableName)) = []"
  by (simp add: nameCheck_def Let_def)


lemma GetTableArn_described [simp]:
  "describedTables (snd (GetTableArn dbmgr tableName)) = [tableName]"
  by (simp add: GetTableArn_def split: sum.splits)

lemma GetTableList_loop_described [simp]:
  "describedTables (snd (GetTableList_loop pages tableNames)) = []"
  by (induction pages tableNames rule: GetTableList_loop.induct) simp_all

lemma GetTableList_described [simp]: "describedTables (snd (GetTableList dbmgr)) = []"
  by (simp add: GetTableList_def)

lemma reportResults_described [simp]: "describedTables (reportResults r) = []"
proof -
  have "describedTables (map (\<lambda>table. Log Info msg) xs) = []" for msg and xs :: "entry list"
    by (induction xs) simp_all
  then show ?thesis by (simp add: reportResults_def)
qed

lemma searchTablesByFuzzyName_loop_result:
  "fst (searchTablesByFuzzyName_loop ToLower dbmgr fuzzyName tableList matchingTables)
   = matchingTables @ List.map_filter
       (\<lambda>tableName.
          if fst (nameCheck ToLower fuzzyName tableName) then None
          else (case fst (GetTableArn dbmgr tableName) of
                  Inl err \<Rightarrow> None
                | Inr tableArn \<Rightarrow> Some (mkEntry tableName tableArn)))
       tableList"
proof (induction tableList arbitrary: matchingTables)
  case Nil
  show ?case by (simp add: List.map_filter_simps)
next
  case (Cons tableName tableList)
  show ?case
    by (simp add: Cons.IH List.map_filter_simps split: sum.splits)
qed


lemma searchTablesByFuzzyName_ok:
  assumes "fst (GetTableList dbmgr) = (tableList, None)"
  shows "searchTablesByFuzzyName ToLower dbmgr fuzzyName
         = (Some (fst (searchTablesByFuzzyName_loop ToLower dbmgr fuzzyName tableList [])),
            snd (GetTableList dbmgr) @ [Log Info ''searchTablesByFuzzyName before'']
            @ snd (searchTablesByFuzzyName_loop ToLower dbmgr fuzzyName tableList []))"
  using assms
  by (cases "GetTableList dbmgr") (simp add: searchTablesByFuzzyName_def Let_def after_def)




lemma GetTableList_loop_failure:
  "GetTableList_loop (map Inr outputs @ Inl err # rest) tableNames
   = ((tableNames @ concat outputs, Some err),
      replicate (Suc (length outputs)) ListTablesCall
      @ [Log Error ''Couldn't list tables. Here's why: %v''])"
  by (induction outputs arbitrary: tableNames) (simp_all add: after_def)

lemma reportResults_tableRequests [simp]: "filter isTableRequest (reportResults r) = []"
proof -
  have "filter isTableRequest (map (\<lambda>table. Log Info msg) xs) = []" for msg and xs :: "entry list"
    by (induction xs) simp_all
  then show ?thesis by (simp add: reportResults_def)
qed

lemma searchTablesByFuzzyName_failure:
  assumes "GetTableList dbmgr = ((tableList, Some err), tr)"
  shows "searchTablesByFuzzyName ToLower dbmgr fuzzyName
         = (None, tr @ [Log Error ''Error finding DynamoDB tables: %v''])"
  using assms by (simp add: searchTablesByFuzzyName_def)

lemma searchTablesByTagValue_failure:
  assumes "GetTableList dbmgr = ((tableList, Some err), tr)"
  shows "searchTablesByTagValue dbmgr tagValue None
         = (None, tr @ [Log Error ''Error finding DynamoDB tables: %v''])"
  using assms by (simp add: searchTablesByTagValue_def)

text \<open>
  Printing a 64-bit integer and parsing the text gives the integer back, so two such
  integers print the same text only when they are equal.
\<close>

lemma digit_char: "n < 10 \<Longrightarrow> (of_char (char_of (48 + n)) :: nat) = 48 + n"
  by (simp add: of_char_of)

lemma isDigit_digit_char: "(n::nat) < 10 \<Longrightarrow> isDigit (char_of (48 + n))"
  by (simp add: isDigit_def digit_char)

lemma digitsOf_digits: "list_all isDigit (digitsOf n)"
proof (induction n rule: digitsOf.induct)
  case (1 n)
  show ?case
  proof (cases "n < 10")
    case True
    then show ?thesis by (subst digitsOf.simps) (simp add: isDigit_digit_char)
  next
    case False
    with 1 show ?thesis
      by (subst digitsOf.simps) (simp add: isDigit_digit_char)
  qed
qed

lemma digitsValue_append: "digitsValue (xs @ ys) acc = digitsValue ys (digitsValue xs acc)"
  by (induction xs arbitrary: acc) simp_all

lemma digitsValue_digitsOf: "digitsValue (digitsOf n) 0 = n"
proof (induction n rule: digitsOf.induct)
  case (1 n)
  show ?case
  proof (cases "n < 10")
    case True
    then show ?thesis by (subst digitsOf.simps) (simp add: digit_char)
  next
    case False
    with 1 show ?thesis
      by (subst digitsOf.simps) (simp add: digitsValue_append digit_char)
  qed
qed

lemma isDigit_not_sign: "isDigit c \<Longrightarrow> c \<noteq> CHR ''+'' \<and> c \<noteq> CHR ''-''"
  by (auto simp: isDigit_def)

lemma ParseInt_digits:
  assumes "ds \<noteq> []" and "list_all isDigit ds" and "int (digitsValue ds 0) < 2 ^ 63"
  shows "ParseInt ds = (int (digitsValue ds 0), None)"
proof -
  from assms(1) obtain c cs where ds: "ds = c # cs" by (cases ds) auto
  with assms(2) have "isDigit c" by simp
  then have c: "c \<noteq> CHR ''+''" "c \<noteq> CHR ''-''" using isDigit_not_sign by auto
  show ?thesis
    using assms c unfolding ParseInt_def ds by (simp add: Let_def)
qed

lemma ParseInt_minus_digits:
  assumes "ds \<noteq> []" and "list_all isDigit ds" and "int (digitsValue ds 0) \<le> 2 ^ 63"
  shows "ParseInt (CHR ''-'' # ds) = (- int (digitsValue ds 0), None)"
  using assms unfolding ParseInt_def by (simp add: Let_def)

lemma ParseInt_Sprintf_d:
  assumes "- (2 ^ 63) \<le> n" and "n < 2 ^ 63"
  shows "ParseInt (Sprintf_d n) = (n, None)"
proof (cases "n < 0")
  case True
  with assms show ?thesis
    using ParseInt_minus_digits [of "digitsOf (nat (- n))"]
    by (simp add: Sprintf_d_def digitsOf_nonempty digitsOf_digits digitsValue_digitsOf)
next
  case False
  with assms show ?thesis
    using ParseInt_digits [of "digitsOf (nat n)"]
    by (simp add: Sprintf_d_def digitsOf_nonempty digitsOf_digits digitsValue_digitsOf)
qed


lemma Sprintf_d_inject:
  assumes "- (2 ^ 63) \<le> a" "a < 2 ^ 63" "- (2 ^ 63) \<le> b" "b < 2 ^ 63"
  shows "Sprintf_d a = Sprintf_d b \<longleftrightarrow> a = b"
proof
  assume "Sprintf_d a = Sprintf_d b"
  then have "ParseInt (Sprintf_d a) = ParseInt (Sprintf_d b)" by simp
  then show "a = b"
    unfolding ParseInt_Sprintf_d [OF assms(1,2)] ParseInt_Sprintf_d [OF assms(3,4)] by simp
qed simp

section \<open>The update operation\<close>

text \<open>
  C8. Asking for on-demand mode on a table whose billing mode is already
  \<open>PAY_PER_REQUEST\<close> succeeds (the returned error is \<open>nil\<close>), sends no update request (the
  only request is the describe that reads the current mode) and logs that no switch is
  needed.
\<close>

theorem ExecuteUpdate_on_demand_idempotent:
  assumes "DescribeTable dbmgr tableName = Inr output"
    and "BillingModeSummary output = Some ''PAY_PER_REQUEST''"
  shows "ExecuteUpdate dbmgr tableName paramRcu paramWcu True switchToProvisioned
         = (None, [DescribeTableCall tableName,
                   Log Warn ''No need to switch, as it already is on demand mode!''])"
  using assms by (simp add: ExecuteUpdate_def GetCurrentBillingMode_def)

theorem ExecuteUpdate_on_demand_idempotent_witness:
  "ExecuteUpdate (exampleManager [] (exampleTable ''PAY_PER_REQUEST'' 0 0) []) ''orders'' [] [] True False
   = (None, [DescribeTableCall ''orders'',
             Log Warn ''No need to switch, as it already is on demand mode!''])"
  using ExecuteUpdate_on_demand_idempotent
    [of "exampleManager [] (exampleTable ''PAY_PER_REQUEST'' 0 0) []" "''orders''"
        "exampleTable ''PAY_PER_REQUEST'' 0 0" "[]" "[]" False]
  by (simp add: exampleManager_def exampleTable_def)

text \<open>
  C4. A change of read or write units on a table whose billing mode is
  \<open>PAY_PER_REQUEST\<close>, asked for without the switch to on-demand and without the switch to
  provisioned, ends in an error, and no update request is sent.
\<close>

theorem ExecuteUpdate_units_on_demand_error:
  assumes "DescribeTable dbmgr tableName = Inr output"
    and "BillingModeSummary output = Some ''PAY_PER_REQUEST''"
  shows "fst (ExecuteUpdate dbmgr tableName paramRcu paramWcu False False)
           = Some ''Failed to update the table!''
         \<and> filter isUpdate (snd (ExecuteUpdate dbmgr tableName paramRcu paramWcu False False)) = []
         \<and> snd (ExecuteUpdate dbmgr tableName paramRcu paramWcu False False)
           = [DescribeTableCall tableName,
              Log Error ''Failed to update table:%s : as current billing mode:%s - does not support modification of rcu or wcu'']"
  using assms by (simp add: ExecuteUpdate_def GetCurrentBillingMode_def)

theorem ExecuteUpdate_units_on_demand_error_witness:
  "fst (ExecuteUpdate (exampleManager [] (exampleTable ''PAY_PER_REQUEST'' 0 0) []) ''orders'' ''10'' [] False False)
     = Some ''Failed to update the table!''
   \<and> filter isUpdate (snd (ExecuteUpdate (exampleManager [] (exampleTable ''PAY_PER_REQUEST'' 0 0) [])
                             ''orders'' ''10'' [] False False)) = []"
  using ExecuteUpdate_units_on_demand_error
    [of "exampleManager [] (exampleTable ''PAY_PER_REQUEST'' 0 0) []" "''orders''"
        "exampleTable ''PAY_PER_REQUEST'' 0 0" "''10''" "[]"]
  by (simp add: exampleManager_def exampleTable_def)

text \<open>
  C7. The switch to provisioned mode with neither read nor write units given sends exactly
  one update request, whatever the table description says, also for a table that is
  provisioned already: the request asks for mode \<open>PROVISIONED\<close> with the default units,
  and the operation returns what that request returns. The current state must have been
  read: a failing describe ends the operation before.
\<close>

theorem ExecuteUpdate_switch_without_units:
  assumes "DescribeTable dbmgr tableName = Inr output"
  shows "filter isUpdate (snd (ExecuteUpdate dbmgr tableName [] [] False True))
           = [UpdateTableCall \<lparr>TableName = tableName, BillingMode = ''PROVISIONED'',
                               ProvisionedThroughput = Some (DefaultRcu, DefaultWcu)\<rparr>]
         \<and> fst (ExecuteUpdate dbmgr tableName [] [] False True)
           = UpdateTable dbmgr \<lparr>TableName = tableName, BillingMode = ''PROVISIONED'',
                                 ProvisionedThroughput = Some (DefaultRcu, DefaultWcu)\<rparr>"
  using assms
  by (simp add: ExecuteUpdate_def GetCurrentBillingMode_def UpdateProvisionedCapacity_def
        after_def Let_def split: option.splits)

theorem ExecuteUpdate_switch_without_units_witness:
  "filter isUpdate (snd (ExecuteUpdate (exampleManager [] (exampleTable ''PROVISIONED'' 5 5) [])
                           ''orders'' [] [] False True))
     = [UpdateTableCall \<lparr>TableName = ''orders'', BillingMode = ''PROVISIONED'',
                         ProvisionedThroughput = Some (5, 5)\<rparr>]
   \<and> fst (ExecuteUpdate (exampleManager [] (exampleTable ''PROVISIONED'' 5 5) [])
            ''orders'' [] [] False True) = None"
  using ExecuteUpdate_switch_without_units
    [of "exampleManager [] (exampleTable ''PROVISIONED'' 5 5) []" "''orders''"
        "exampleTable ''PROVISIONED'' 5 5"]
  by (simp add: exampleManager_def exampleTable_def DefaultRcu_def DefaultWcu_def)

text \<open>
  Provisioned capacity asked for with at least one of the two units given (the switch to
  provisioned is set, or the table is provisioned already), as the program decides it.
  The blank unit gets the default; \<open>r\<close> and \<open>w\<close> are the resolved units as texts, the
  form in which the program compares them with the current units of the table. If the
  table is in mode \<open>PROVISIONED\<close> and the resolved texts are the texts of its current
  units, the operation succeeds and sends no update request; in every other case it sends
  exactly one update request, which carries the numbers the resolved texts parse to, and
  returns what that request returns.
\<close>

lemma ExecuteUpdate_explicit_units:
  assumes d: "DescribeTable dbmgr tableName = Inr output"
    and units: "paramRcu \<noteq> [] \<or> paramWcu \<noteq> []"
    and req: "switchToProvisioned \<or> BillingModeSummary output = Some ''PROVISIONED''"
  shows "(let r = (if paramRcu = [] then Sprintf_d DefaultRcu else paramRcu);
              w = (if paramWcu = [] then Sprintf_d DefaultWcu else paramWcu);
              input = \<lparr>TableName = tableName,
                       BillingMode = (if switchToProvisioned then ''PROVISIONED'' else []),
                       ProvisionedThroughput = Some (fst (ParseInt r), fst (ParseInt w))\<rparr>;
              run = ExecuteUpdate dbmgr tableName paramRcu paramWcu False switchToProvisioned
          in if BillingModeSummary output = Some ''PROVISIONED''
                \<and> r = Sprintf_d (ToInt64 (ReadCapacityUnits output))
                \<and> w = Sprintf_d (ToInt64 (WriteCapacityUnits output))
             then fst run = None \<and> filter isUpdate (snd run) = []
             else filter isUpdate (snd run) = [UpdateTableCall input]
                  \<and> fst run = UpdateTable dbmgr input)"
proof -
  define r where "r = (if paramRcu = [] then Sprintf_d DefaultRcu else paramRcu)"
  define w where "w = (if paramWcu = [] then Sprintf_d DefaultWcu else paramWcu)"
  have r: "r \<noteq> []" and w: "w \<noteq> []"
    by (simp_all add: r_def w_def Sprintf_d_nonempty)
  note run = ExecuteUpdate_units [OF d r w r_def w_def units req]
  note upd = UpdateProvisionedCapacity_units [OF r w, of dbmgr switchToProvisioned tableName]
  show ?thesis
    unfolding Let_def r_def [symmetric] w_def [symmetric] run
    using upd by (simp add: after_def)
qed

lemma ExecuteUpdate_explicit_units_witness:
  "fst (ExecuteUpdate (exampleManager [] (exampleTable ''PROVISIONED'' 5 5) []) ''orders'' ''5'' ''5'' False True) = None
   \<and> filter isUpdate (snd (ExecuteUpdate (exampleManager [] (exampleTable ''PROVISIONED'' 5 5) [])
                             ''orders'' ''5'' ''5'' False True)) = []
   \<and> filter isUpdate (snd (ExecuteUpdate (exampleManager [] (exampleTable ''PROVISIONED'' 5 5) [])
                             ''orders'' ''10'' [] False True))
     = [UpdateTableCall \<lparr>TableName = ''orders'', BillingMode = ''PROVISIONED'',
                         ProvisionedThroughput = Some (10, 5)\<rparr>]"
  using ExecuteUpdate_explicit_units
      [of "exampleManager [] (exampleTable ''PROVISIONED'' 5 5) []" "''orders''"
          "exampleTable ''PROVISIONED'' 5 5" "''10''" "[]" True]
    ExecuteUpdate_explicit_units
      [of "exampleManager [] (exampleTable ''PROVISIONED'' 5 5) []" "''orders''"
          "exampleTable ''PROVISIONED'' 5 5" "''5''" "''5''" True]
  by (simp add: exampleManager_def exampleTable_def Let_def ToInt64_def Sprintf_d_5 ParseInt_5
        ParseInt_10 Sprintf_d_DefaultRcu Sprintf_d_DefaultWcu)

text \<open>
  The same branch for units given in the form \<open>%d\<close> prints them (no plus sign, no
  leading zero): there the comparison of the texts is the comparison of the numbers, and the
  request carries the numbers. A text such as \<open>05\<close> differs from the text \<open>5\<close> of
  the current unit and leads to an update request with the value 5.
\<close>

lemma ExecuteUpdate_explicit_units_numeric:
  assumes d: "DescribeTable dbmgr tableName = Inr output"
    and req: "switchToProvisioned \<or> BillingModeSummary output = Some ''PROVISIONED''"
    and p: "- (2 ^ 63) \<le> p" "p < 2 ^ 63" and q: "- (2 ^ 63) \<le> q" "q < 2 ^ 63"
    and cr: "- (2 ^ 63) \<le> ToInt64 (ReadCapacityUnits output)" "ToInt64 (ReadCapacityUnits output) < 2 ^ 63"
    and cw: "- (2 ^ 63) \<le> ToInt64 (WriteCapacityUnits output)" "ToInt64 (WriteCapacityUnits output) < 2 ^ 63"
  shows "(let run = ExecuteUpdate dbmgr tableName (Sprintf_d p) (Sprintf_d q) False switchToProvisioned
          in if BillingModeSummary output = Some ''PROVISIONED''
                \<and> (p, q) = (ToInt64 (ReadCapacityUnits output), ToInt64 (WriteCapacityUnits output))
             then fst run = None \<and> filter isUpdate (snd run) = []
             else filter isUpdate (snd run)
                  = [UpdateTableCall \<lparr>TableName = tableName,
                       BillingMode = (if switchToProvisioned then ''PROVISIONED'' else []),
                       ProvisionedThroughput = Some (p, q)\<rparr>])"
proof -
  have r: "Sprintf_d p \<noteq> []" and w: "Sprintf_d q \<noteq> []"
    by (simp_all add: Sprintf_d_nonempty)
  have pr: "Sprintf_d p = (if Sprintf_d p = [] then Sprintf_d DefaultRcu else Sprintf_d p)"
    and pw: "Sprintf_d q = (if Sprintf_d q = [] then Sprintf_d DefaultWcu else Sprintf_d q)"
    by (simp_all add: Sprintf_d_nonempty)
  have units: "Sprintf_d p \<noteq> [] \<or> Sprintf_d q \<noteq> []"
    using r by simp
  note run = ExecuteUpdate_units [OF d r w pr pw units req]
  note upd = UpdateProvisionedCapacity_units [OF r w, of dbmgr switchToProvisioned tableName]
  show ?thesis
    unfolding Let_def run
    using upd
    by (simp add: after_def ParseInt_Sprintf_d [OF p] ParseInt_Sprintf_d [OF q]
          Sprintf_d_inject [OF p cr] Sprintf_d_inject [OF q cw])
qed

text \<open>
  C3. The table is in mode \<open>PROVISIONED\<close> with 5 read and 5 write units, and provisioned
  capacity is asked for with the read units written \<open>05\<close> and the write units \<open>5\<close>.
  Both texts pass the validation of the command line and parse to 5: the resolved pair
  is (5, 5), the current pair of the table, which the claim makes a no-op. The program
  compares the text \<open>05\<close> with the text \<open>5\<close> it printed for the current read units,
  finds them different and sends an update request for the units (5, 5).
\<close>

theorem ExecuteUpdate_same_units_other_text:
  "GetCurrentBillingMode (exampleManager [] (exampleTable ''PROVISIONED'' 5 5) []) ''orders''
     = (Inr (''PROVISIONED'', ''5'', ''5''), [DescribeTableCall ''orders''])
   \<and> ParseInt ''05'' = (5, None)
   \<and> ParseInt ''5'' = (5, None)
   \<and> ExecuteUpdate (exampleManager [] (exampleTable ''PROVISIONED'' 5 5) []) ''orders'' ''05'' ''5'' False True
     = (None, [DescribeTableCall ''orders'',
               UpdateTableCall \<lparr>TableName = ''orders'', BillingMode = ''PROVISIONED'',
                                 ProvisionedThroughput = Some (5, 5)\<rparr>,
               Log Info ''Provisioned capacity updated for table:%s - RCU: %d, WCU: %d''])"
proof -
  have p: "ParseInt ''05'' = (5, None)" by code_simp
  have g: "GetCurrentBillingMode (exampleManager [] (exampleTable ''PROVISIONED'' 5 5) []) ''orders''
     = (Inr (''PROVISIONED'', ''5'', ''5''), [DescribeTableCall ''orders''])"
    by (simp add: GetCurrentBillingMode_def exampleManager_def exampleTable_def Let_def
          ToInt64_def Sprintf_d_5)
  have u: "UpdateProvisionedCapacity (exampleManager [] (exampleTable ''PROVISIONED'' 5 5) []) True ''orders'' ''05'' ''5''
     = (None, [UpdateTableCall \<lparr>TableName = ''orders'', BillingMode = ''PROVISIONED'',
                                 ProvisionedThroughput = Some (5, 5)\<rparr>,
               Log Info ''Provisioned capacity updated for table:%s - RCU: %d, WCU: %d''])"
    by (simp add: UpdateProvisionedCapacity_def Let_def p ParseInt_5 exampleManager_def)
  show ?thesis
    by (simp add: ExecuteUpdate_def g u p ParseInt_5 after_def Let_def)
qed

theorem ExecuteUpdate_same_units_other_text_witness:
  "fst (ParseInt ''05'') = fst (ParseInt ''5'')
   \<and> filter isUpdate (snd (ExecuteUpdate (exampleManager [] (exampleTable ''PROVISIONED'' 5 5) [])
                             ''orders'' ''05'' ''5'' False True))
     = [UpdateTableCall \<lparr>TableName = ''orders'', BillingMode = ''PROVISIONED'',
                         ProvisionedThroughput = Some (5, 5)\<rparr>]"
  using ExecuteUpdate_same_units_other_text by simp

section \<open>The search operation\<close>

text \<open>
  C9. With an empty name pattern and an empty tag value \<open>ExecuteSearch\<close> returns the nil
  slice; all it does is log one error: no request goes to the service.
\<close>

theorem ExecuteSearch_empty_conditions:
  "ExecuteSearch ToLower dbmgr [] []
   = (None, [Log Error ''Invalid search conditions: search table name or tag value should not be empty!''])"
  by (simp add: ExecuteSearch_def)

theorem ExecuteSearch_empty_conditions_witness:
  "fst (ExecuteSearch asciiToLower (exampleManager [Inr [''orders'']] (exampleTable ''PROVISIONED'' 5 5) []) [] []) = None
   \<and> filter isRequest (snd (ExecuteSearch asciiToLower
        (exampleManager [Inr [''orders'']] (exampleTable ''PROVISIONED'' 5 5) []) [] [])) = []"
  using ExecuteSearch_empty_conditions
    [of asciiToLower "exampleManager [Inr [''orders'']] (exampleTable ''PROVISIONED'' 5 5) []"]
  by simp



text \<open>
  C2, as the program has it. The service fails a page of its listing, on every listing
  call of the run. \<open>GetTableList\<close> returns the names of the pages before that page
  together with the failure. A search function does not pass them on: it logs the error
  and returns the nil slice, by name (\<open>searchTablesByFuzzyName\<close>) as well as by tag
  with no list of names given (\<open>searchTablesByTagValue\<close>). So \<open>ExecuteSearch\<close> returns
  nil with a name pattern alone and with a tag value alone, and also with both, where
  the nil result of the search by name makes the search by tag list a second time and
  that listing fails as well. The traces are given in full: the listing requests, the
  two error records of each failed listing, the warning for the empty result. No
  request to describe a table or to list its tags is sent, and the failure is not
  returned: the search functions have no error result.
\<close>

theorem ExecuteSearch_listing_failure:
  assumes "ListTablesPages dbmgr = map Inr outputs @ Inl err # rest"
  shows "(let listed = replicate (Suc (length outputs)) ListTablesCall
                 @ [Log Error ''Couldn't list tables. Here's why: %v''];
              failed = listed @ [Log Error ''Error finding DynamoDB tables: %v''];
              empty = [Log Warn ''Empty search results - please check the search conditions, tableFuzzyName:%s - tagValue:%s'',
                       Log Info ''Search results:'']
          in GetTableList dbmgr = ((concat outputs, Some err), listed)
             \<and> searchTablesByFuzzyName ToLower dbmgr tableFuzzyName = (None, failed)
             \<and> searchTablesByTagValue dbmgr tagValue None = (None, failed)
             \<and> ExecuteSearch ToLower dbmgr tableFuzzyName []
                 = (None, if tableFuzzyName \<noteq> []
                          then [Log Info ''Begin to search the matched tables via fuzzy name:%s, ...'']
                               @ failed @ empty
                          else [Log Error ''Invalid search conditions: search table name or tag value should not be empty!''])
             \<and> ExecuteSearch ToLower dbmgr [] tagValue
                 = (None, if tagValue \<noteq> []
                          then [Log Info ''Begin to search the matched tables via tag:%s, ...'']
                               @ failed @ empty
                          else [Log Error ''Invalid search conditions: search table name or tag value should not be empty!''])
             \<and> (tableFuzzyName \<noteq> [] \<and> tagValue \<noteq> [] \<longrightarrow>
                  ExecuteSearch ToLower dbmgr tableFuzzyName tagValue
                  = (None, [Log Info ''Begin to search the matched tables via fuzzy name:%s, tag:%s, ...'']
                           @ failed @ failed @ empty))
             \<and> filter isTableRequest (snd (ExecuteSearch ToLower dbmgr tableFuzzyName tagValue)) = [])"
proof -
  define listed where "listed = replicate (Suc (length outputs)) ListTablesCall
      @ [Log Error ''Couldn't list tables. Here's why: %v'']"
  define failed where "failed = listed @ [Log Error ''Error finding DynamoDB tables: %v'']"
  have l: "GetTableList dbmgr = ((concat outputs, Some err), listed)"
    by (simp add: GetTableList_def assms GetTableList_loop_failure listed_def)
  have r: "filter isTableRequest failed = []"
    by (simp add: failed_def listed_def)
  have f: "searchTablesByFuzzyName ToLower dbmgr tableFuzzyName = (None, failed)"
    using searchTablesByFuzzyName_failure [OF l] by (simp add: failed_def)
  have t: "searchTablesByTagValue dbmgr tagValue None = (None, failed)"
    using searchTablesByTagValue_failure [OF l] by (simp add: failed_def)
  have rep: "reportResults None
      = [Log Warn ''Empty search results - please check the search conditions, tableFuzzyName:%s - tagValue:%s'',
         Log Info ''Search results:'']"
    by (simp add: reportResults_def elements_def)
  have n: "ExecuteSearch ToLower dbmgr tableFuzzyName []
                 = (None, if tableFuzzyName \<noteq> []
                          then [Log Info ''Begin to search the matched tables via fuzzy name:%s, ...'']
                               @ failed @ reportResults None
                          else [Log Error ''Invalid search conditions: search table name or tag value should not be empty!''])"
    by (simp add: ExecuteSearch_def Let_def f)
  have g: "ExecuteSearch ToLower dbmgr [] tagValue
                 = (None, if tagValue \<noteq> []
                          then [Log Info ''Begin to search the matched tables via tag:%s, ...'']
                               @ failed @ reportResults None
                          else [Log Error ''Invalid search conditions: search table name or tag value should not be empty!''])"
    by (simp add: ExecuteSearch_def Let_def t)
  have b: "tableFuzzyName \<noteq> [] \<and> tagValue \<noteq> [] \<longrightarrow>
                  ExecuteSearch ToLower dbmgr tableFuzzyName tagValue
                  = (None, [Log Info ''Begin to search the matched tables via fuzzy name:%s, tag:%s, ...'']
                           @ failed @ failed @ reportResults None)"
    by (simp add: ExecuteSearch_def Let_def f t elements_def)
  have q: "filter isTableRequest (snd (ExecuteSearch ToLower dbmgr tableFuzzyName tagValue)) = []"
    using r by (simp add: ExecuteSearch_def Let_def f t elements_def)
  show ?thesis
    unfolding Let_def listed_def [symmetric] failed_def [symmetric] rep [symmetric]
    using l f t n g b q by blast
qed

theorem ExecuteSearch_listing_failure_witness:
  "ExecuteSearch asciiToLower
        (exampleManager [Inr [''orders''], Inl ''RequestTimeout'', Inr [''users'']] (exampleTable ''PROVISIONED'' 5 5) [])
        ''orders'' []
   = (None, [Log Info ''Begin to search the matched tables via fuzzy name:%s, ...'',
             ListTablesCall, ListTablesCall,
             Log Error ''Couldn't list tables. Here's why: %v'',
             Log Error ''Error finding DynamoDB tables: %v'',
             Log Warn ''Empty search results - please check the search conditions, tableFuzzyName:%s - tagValue:%s'',
             Log Info ''Search results:''])
   \<and> fst (GetTableList (exampleManager [Inr [''orders''], Inl ''RequestTimeout'', Inr [''users'']] (exampleTable ''PROVISIONED'' 5 5) []))
     = ([''orders''], Some ''RequestTimeout'')"
  using ExecuteSearch_listing_failure [of "exampleManager [Inr [''orders''], Inl ''RequestTimeout'', Inr [''users'']] (exampleTable ''PROVISIONED'' 5 5) []"
      "[[''orders'']]" "''RequestTimeout''" "[Inr [''users'']]" asciiToLower "''orders''" "''prod''"]
  by (simp add: exampleManager_def Let_def)

text \<open>
  C2, as the claim words it, fails: the listing below yields \<open>orders\<close> before its second
  page fails, \<open>orders\<close> contains the pattern and the service can describe it, and the
  search for \<open>orders\<close> returns nil instead of the entry of that table.
\<close>

theorem partial_results_returned_counterexample:
  "fst (GetTableList (exampleManager [Inr [''orders''], Inl ''RequestTimeout''] (exampleTable ''PROVISIONED'' 5 5) []))
     = ([''orders''], Some ''RequestTimeout'')
   \<and> Contains ''orders'' ''orders''
   \<and> DescribeTable (exampleManager [Inr [''orders''], Inl ''RequestTimeout''] (exampleTable ''PROVISIONED'' 5 5) []) ''orders''
     = Inr (exampleTable ''PROVISIONED'' 5 5)
   \<and> fst (ExecuteSearch asciiToLower
        (exampleManager [Inr [''orders''], Inl ''RequestTimeout''] (exampleTable ''PROVISIONED'' 5 5) [])
        ''orders'' []) = None
   \<and> elements (fst (ExecuteSearch asciiToLower
        (exampleManager [Inr [''orders''], Inl ''RequestTimeout''] (exampleTable ''PROVISIONED'' 5 5) [])
        ''orders'' [])) \<noteq> [mkEntry ''orders'' ''arn:orders'']"
  by (simp add: GetTableList_def exampleManager_def after_def ExecuteSearch_def
        searchTablesByFuzzyName_def elements_def)

section \<open>The similarity score and the length of a string\<close>

text \<open>
  A string of ASCII bytes has as many code points as bytes. On such strings the distance
  is at most \<open>maxLen\<close>, the quotient lies between 0 and 100, where truncation and floor
  agree and the clamp changes nothing, and the program computes the score of the
  specification.
\<close>

lemma decodeRunes_ascii: "\<forall>b \<in> set bs. b < 0x80 \<Longrightarrow> decodeRunes bs = bs"
  by (induction bs) simp_all

lemma runes_ascii:
  assumes "\<forall>c \<in> set s. (of_char c :: nat) < 0x80"
  shows "runes s = map of_char s"
  unfolding runes_def using assms by (intro decodeRunes_ascii) simp

lemma DistanceForStrings_bounds:
  "0 \<le> DistanceForStrings xs ys DefaultOptions
   \<and> DistanceForStrings xs ys DefaultOptions \<le> int (max (length xs) (length ys))"
  by (induction xs ys DefaultOptions rule: DistanceForStrings.induct)
     (auto simp: DefaultOptions_def)

lemma sdiv_nonneg:
  fixes x m :: int
  assumes "0 \<le> x" and "0 < m"
  shows "x sdiv m = x div m"
  using assms by (cases "x = 0") (simp_all add: signed_divide_int_def sgn_if)

lemma ratio_in_range:
  fixes d m :: int
  assumes "0 \<le> d" and "d \<le> m" and "0 < m"
  shows "((m - d) * 100) sdiv m = ((m - d) * 100) div m"
    and "0 \<le> ((m - d) * 100) div m" and "((m - d) * 100) div m \<le> 100"
proof -
  define x where "x = (m - d) * 100"
  have x: "0 \<le> x" "x \<le> 100 * m"
    using assms by (simp_all add: x_def)
  show "((m - d) * 100) sdiv m = ((m - d) * 100) div m"
    using sdiv_nonneg [OF x(1) assms(3)] by (simp only: x_def)
  show "0 \<le> ((m - d) * 100) div m"
    using x(1) assms(3) unfolding x_def [symmetric] by (simp add: pos_imp_zdiv_nonneg_iff)
  have "x div m \<le> (100 * m) div m"
    using x(2) assms(3) by (intro zdiv_mono1) simp_all
  with assms(3) show "((m - d) * 100) div m \<le> 100"
    unfolding x_def [symmetric] by simp
qed

lemma FuzzyMatchRatio_ascii:
  assumes a: "\<forall>c \<in> set str1. (of_char c :: nat) < 0x80"
    and b: "\<forall>c \<in> set str2. (of_char c :: nat) < 0x80"
  shows "NormalizeRatio (FuzzyMatchRatio str1 str2) = spec_score str1 str2"
proof -
  define m where "m = max (int (length str1)) (int (length str2))"
  define d where "d = DistanceForStrings (runes str1) (runes str2) DefaultOptions"
  have la: "length (runes str1) = length str1" and lb: "length (runes str2) = length str2"
    by (simp_all add: runes_ascii a b)
  have d: "0 \<le> d" "d \<le> m"
    using DistanceForStrings_bounds [of "runes str1" "runes str2"]
    by (auto simp: d_def m_def la lb max_def)
  have mm: "(if int (length str2) > int (length str1) then int (length str2)
             else int (length str1)) = m"
    by (simp add: m_def max_def)
  have code: "FuzzyMatchRatio str1 str2 = (if m = 0 then 100 else ((m - d) * 100) sdiv m)"
    unfolding FuzzyMatchRatio_def Let_def mm d_def by (rule refl)
  have spec: "spec_score str1 str2 = (if m = 0 then 100 else max 0 (min 100 (((m - d) * 100) div m)))"
    unfolding spec_score_def Let_def la lb m_def [symmetric] d_def by (rule refl)
  show ?thesis
  proof (cases "m = 0")
    case True
    then show ?thesis by (simp add: code spec NormalizeRatio_def)
  next
    case False
    then have "0 < m" by (simp add: m_def)
    from ratio_in_range [OF d this] False show ?thesis
      by (simp add: code spec NormalizeRatio_def)
  qed
qed

text \<open>
  C1. The program measures the distance in code points and \<open>maxLen\<close> in bytes. For the
  one-letter string U+00E9, two bytes in UTF-8, against the empty string, the distance is
  1 and the program's score is (2 - 1) * 100 / 2 = 50, where the score of the claim, with
  \<open>maxLen\<close> in code points, is (1 - 1) * 100 / 1 = 0.
\<close>

theorem FuzzyMatchRatio_maxLen_in_bytes:
  "runes [CHR 0xC3, CHR 0xA9] = [0xE9]
   \<and> length [CHR 0xC3, CHR 0xA9] = 2
   \<and> DistanceForStrings (runes [CHR 0xC3, CHR 0xA9]) (runes []) DefaultOptions = 1
   \<and> NormalizeRatio (FuzzyMatchRatio [CHR 0xC3, CHR 0xA9] []) = 50
   \<and> spec_score [CHR 0xC3, CHR 0xA9] [] = 0"
  by (simp add: NormalizeRatio_def FuzzyMatchRatio_def spec_score_def runes_def DefaultOptions_def
        isCont_def runeError_def Let_def signed_divide_int_def)

section \<open>Name pattern and tag value together\<close>

lemma in_set_map_filter:
  "y \<in> set (List.map_filter f xs) \<longleftrightarrow> (\<exists>x \<in> set xs. f x = Some y)"
  by (induction xs) (auto split: option.splits)

lemma elements_appendSlice [simp]: "elements (appendSlice s x) = elements s @ [x]"
  by (simp add: elements_def appendSlice_def split: option.splits)

lemma appendSlice_not_nil [simp]: "appendSlice s x \<noteq> None"
  by (simp add: appendSlice_def split: option.splits)

lemma tagValue_loop_found: "fst (tagValue_loop tagValue tags) = (tagValue \<in> Value ` set tags)"
  by (induction tags) auto

lemma GetTableTags_fst: "fst (GetTableTags dbmgr tableArn) = ListTagsOfResource dbmgr tableArn"
  by (simp add: GetTableTags_def split: sum.splits)

lemma searchTablesByTagValue_loop_result:
  "elements (fst (searchTablesByTagValue_loop dbmgr tagValue tableListTag matchingTables))
   = elements matchingTables @ List.map_filter
       (\<lambda>tableName.
          case fst (GetTableArn dbmgr tableName) of
            Inl err \<Rightarrow> None
          | Inr tableArn \<Rightarrow>
              (case ListTagsOfResource dbmgr tableArn of
                 Inl errTag \<Rightarrow> None
               | Inr tags \<Rightarrow>
                   if tagValue \<in> Value ` set tags then Some (mkEntry tableName tableArn) else None))
       tableListTag"
proof (induction tableListTag arbitrary: matchingTables)
  case Nil
  show ?case by (simp add: List.map_filter_simps)
next
  case (Cons tableName tableListTag)
  show ?case
    by (simp add: Cons.IH List.map_filter_simps GetTableTags_fst tagValue_loop_found
          split: sum.splits)
qed

lemma collectNames_elements:
  "elements (collectNames entries tableList)
   = elements tableList @ List.map_filter (\<lambda>entry. entry ''Name'') entries"
  by (induction entries arbitrary: tableList)
     (simp_all add: List.map_filter_simps split: option.splits)

lemma collectNames_nil:
  "collectNames entries tableList = None
   \<longleftrightarrow> tableList = None \<and> List.map_filter (\<lambda>entry. entry ''Name'') entries = []"
  by (induction entries arbitrary: tableList)
     (simp_all add: List.map_filter_simps split: option.splits)

lemma mkEntry_Name [simp]: "mkEntry tableName tableArn ''Name'' = Some tableName"
  by (simp add: mkEntry_def)

lemma names_of_fuzzy_result:
  "List.map_filter (\<lambda>entry. entry ''Name'')
     (fst (searchTablesByFuzzyName_loop ToLower dbmgr fuzzyName tableList []))
   = filter (\<lambda>tableName. \<not> fst (nameCheck ToLower fuzzyName tableName)
                          \<and> isl (fst (GetTableArn dbmgr tableName)) = False) tableList"
  unfolding searchTablesByFuzzyName_loop_result
  by (induction tableList) (simp_all add: List.map_filter_simps split: sum.splits)

text \<open>
  When the search by name alone finds at least one table, the search with both
  conditions returns only tables of that result that carry a tag of the given value.
\<close>

lemma ExecuteSearch_and_nonempty:
  assumes name: "tableFuzzyName \<noteq> []" and tag: "tagValue \<noteq> []"
    and ne: "elements (fst (ExecuteSearch ToLower dbmgr tableFuzzyName [])) \<noteq> []"
  shows "set (elements (fst (ExecuteSearch ToLower dbmgr tableFuzzyName tagValue)))
         \<subseteq> set (elements (fst (ExecuteSearch ToLower dbmgr tableFuzzyName [])))
           \<inter> {mkEntry tableName tableArn | tableName tableArn tags.
                ListTagsOfResource dbmgr tableArn = Inr tags \<and> tagValue \<in> Value ` set tags}"
proof -
  obtain tableList err tr where l: "GetTableList dbmgr = ((tableList, err), tr)"
    by (metis surj_pair)
  have err: "err = None"
  proof (rule ccontr)
    assume "err \<noteq> None"
    then obtain e where "err = Some e" by auto
    with l name have "fst (ExecuteSearch ToLower dbmgr tableFuzzyName []) = None"
      by (simp add: ExecuteSearch_def Let_def searchTablesByFuzzyName_def)
    with ne show False by (simp add: elements_def)
  qed
  define es where "es = fst (searchTablesByFuzzyName_loop ToLower dbmgr tableFuzzyName tableList [])"
  have ok: "fst (GetTableList dbmgr) = (tableList, None)"
    using l err by simp
  have fuzzy: "fst (searchTablesByFuzzyName ToLower dbmgr tableFuzzyName) = Some es"
    by (simp add: searchTablesByFuzzyName_ok [OF ok] es_def)
  have only: "elements (fst (ExecuteSearch ToLower dbmgr tableFuzzyName [])) = es"
    using name by (simp add: ExecuteSearch_def Let_def fuzzy elements_def)
  define ns where "ns = List.map_filter (\<lambda>entry. entry ''Name'') es"
  have ns: "ns = filter (\<lambda>tableName. \<not> fst (nameCheck ToLower tableFuzzyName tableName)
                          \<and> isl (fst (GetTableArn dbmgr tableName)) = False) tableList"
    unfolding ns_def es_def by (rule names_of_fuzzy_result)
  have "es \<noteq> []" using ne only by simp
  then have "ns \<noteq> []"
    unfolding ns es_def searchTablesByFuzzyName_loop_result
    by (induction tableList) (auto simp: List.map_filter_simps split: sum.splits if_splits)
  then have coll: "collectNames es None = Some ns"
    using collectNames_nil [of es None] collectNames_elements [of es None]
    by (cases "collectNames es None") (simp_all add: ns_def elements_def)
  have both: "elements (fst (ExecuteSearch ToLower dbmgr tableFuzzyName tagValue))
      = elements (fst (searchTablesByTagValue_loop dbmgr tagValue ns None))"
    using name tag
    by (simp add: ExecuteSearch_def Let_def fuzzy elements_def [of "Some es"] coll
          searchTablesByTagValue_def)
  show ?thesis
  proof
    fix e
    assume "e \<in> set (elements (fst (ExecuteSearch ToLower dbmgr tableFuzzyName tagValue)))"
    then obtain n where n: "n \<in> set ns"
      and e: "(case fst (GetTableArn dbmgr n) of
            Inl err \<Rightarrow> None
          | Inr tableArn \<Rightarrow>
              (case ListTagsOfResource dbmgr tableArn of
                 Inl errTag \<Rightarrow> None
               | Inr tags \<Rightarrow>
                   if tagValue \<in> Value ` set tags then Some (mkEntry n tableArn) else None)) = Some e"
      unfolding both searchTablesByTagValue_loop_result
      by (auto simp: elements_def in_set_map_filter)
    from e obtain arn tags where arn: "fst (GetTableArn dbmgr n) = Inr arn"
      and tags: "ListTagsOfResource dbmgr arn = Inr tags" "tagValue \<in> Value ` set tags"
      and e': "e = mkEntry n arn"
      by (auto split: sum.splits if_splits)
    from n have "n \<in> set tableList" "\<not> fst (nameCheck ToLower tableFuzzyName n)"
      by (simp_all add: ns)
    with arn have "e \<in> set es"
      unfolding es_def searchTablesByFuzzyName_loop_result e'
      by (auto simp: in_set_map_filter)
    with tags e' show "e \<in> set (elements (fst (ExecuteSearch ToLower dbmgr tableFuzzyName [])))
           \<inter> {mkEntry tableName tableArn | tableName tableArn tags.
                ListTagsOfResource dbmgr tableArn = Inr tags \<and> tagValue \<in> Value ` set tags}"
      unfolding only by blast
  qed
qed

text \<open>
  C5. The service has the one table \<open>orders\<close>, with a tag of value \<open>prod\<close>. No name
  passes the pattern \<open>zzz\<close>, so the search by name alone finds nothing. The list of
  names handed to the tag search is then the nil slice, which that function takes as the
  order to list every table: the search for \<open>zzz\<close> with tag value \<open>prod\<close> returns
  \<open>orders\<close>.
\<close>

theorem ExecuteSearch_empty_name_filter_lists_all:
  "elements (fst (ExecuteSearch asciiToLower
       (exampleManager [Inr [''orders'']] (exampleTable ''PROVISIONED'' 5 5) [\<lparr>Key = ''env'', Value = ''prod''\<rparr>])
       ''zzz'' [])) = []
   \<and> elements (fst (ExecuteSearch asciiToLower
       (exampleManager [Inr [''orders'']] (exampleTable ''PROVISIONED'' 5 5) [\<lparr>Key = ''env'', Value = ''prod''\<rparr>])
       ''zzz'' ''prod'')) = [mkEntry ''orders'' ''arn:orders'']"
proof -
  have score: "NormalizeRatio (FuzzyMatchRatio (asciiToLower ''zzz'') (asciiToLower ''orders'')) = 0"
    by code_simp
  have c: "\<not> Contains ''orders'' ''zzz''"
    by code_simp
  have n: "fst (nameCheck asciiToLower ''zzz'' ''orders'')"
    by (simp add: nameCheck_continue score c del: Contains.simps)
  have l: "GetTableList (exampleManager [Inr [''orders'']] (exampleTable ''PROVISIONED'' 5 5) [\<lparr>Key = ''env'', Value = ''prod''\<rparr>])
     = (([''orders''], None), [ListTablesCall])"
    by (simp add: GetTableList_def exampleManager_def after_def)
  have f: "fst (searchTablesByFuzzyName asciiToLower
       (exampleManager [Inr [''orders'']] (exampleTable ''PROVISIONED'' 5 5) [\<lparr>Key = ''env'', Value = ''prod''\<rparr>])
       ''zzz'') = Some []"
    by (simp add: searchTablesByFuzzyName_def l n)
  have t: "fst (searchTablesByTagValue
       (exampleManager [Inr [''orders'']] (exampleTable ''PROVISIONED'' 5 5) [\<lparr>Key = ''env'', Value = ''prod''\<rparr>])
       ''prod'' None) = Some [mkEntry ''orders'' ''arn:orders'']"
    unfolding searchTablesByTagValue_def l
    by (simp add: GetTableArn_def GetTableTags_def exampleManager_def exampleTable_def appendSlice_def)
  show ?thesis
    by (simp add: ExecuteSearch_def Let_def f t elements_def)
qed

end
